theory Spec2Isabelle
  imports Main "HOL-Library.Multiset"
begin

section \<open>The relational store\<close>

text \<open>
  The program keeps two SQLite tables, \<open>clients\<close> and \<open>types\<close>, created by
  \<open>Database.init_database\<close>. A table is the list of its rows in storage order. Columns
  declared \<open>NOT NULL\<close> hold a value, the other columns an option (\<open>None\<close> is SQL
  \<open>NULL\<close>). Strings are lists of characters; a character stands for one code point.
  Both tables are declared \<open>AUTOINCREMENT\<close>, so SQLite remembers the largest row
  identifier it has handed out for each of them: \<open>clients_seq\<close> and \<open>types_seq\<close>.
\<close>

record client =
  c_id :: int
  c_name :: string
  c_folder_path :: string
  c_type_id :: "int option"
  c_date :: "string option"
  c_phone :: "string option"
  c_email :: "string option"
  c_notes :: "string option"
  c_avatar_path :: "string option"
  c_created_at :: "string option"
  c_updated_at :: "string option"

record shoot_type =
  t_id :: int
  t_name :: string
  t_color :: "string option"
  t_created_at :: "string option"
  t_client_count :: int

record database =
  clients :: "client list"
  types :: "shoot_type list"
  clients_seq :: int
  types_seq :: int

text \<open>
  The exceptions the modelled code can raise. \<open>ValueError\<close> carries the folder path
  that \<open>add_client\<close> puts into its message. \<open>OperationalError\<close>,
  \<open>ProgrammingError\<close> and \<open>IntegrityError\<close> are the ones of the \<open>sqlite3\<close> module;
  \<open>FileNotFoundError\<close> and \<open>NotADirectoryError\<close> come from \<open>os.listdir\<close>, and
  \<open>ImageError\<close> stands for any failure of opening, converting, resizing or saving an
  image.
\<close>

datatype exn =
  ValueError string
  | OperationalError
  | ProgrammingError
  | IntegrityError
  | FileNotFoundError
  | NotADirectoryError
  | ImageError

text \<open>
  The identifier SQLite gives to a row inserted into an \<open>AUTOINCREMENT\<close> table: one more
  than the largest identifier that is or ever was in the table.
\<close>

definition next_rowid :: "int \<Rightarrow> int list \<Rightarrow> int" where
  "next_rowid seq ids = fold max ids seq + 1"

subsection \<open>ORDER BY\<close>

text \<open>
  SQL leaves the relative order of rows that tie on the sort key open. The model sorts by
  insertion, keeping tied rows in the order the table is read in.
\<close>

fun place :: "('a \<Rightarrow> 'a \<Rightarrow> bool) \<Rightarrow> 'a \<Rightarrow> 'a list \<Rightarrow> 'a list" where
  "place goes_first x [] = [x]"
| "place goes_first x (y # ys) = (if goes_first x y then x # y # ys else y # place goes_first x ys)"

definition order_by :: "('a \<Rightarrow> 'a \<Rightarrow> bool) \<Rightarrow> 'a list \<Rightarrow> 'a list" where
  "order_by goes_first rows = foldr (place goes_first) rows []"

section \<open>ClientManager\<close>

subsection \<open>delete_client and get_types\<close>

text \<open>
  \<open>delete_client\<close> runs \<open>DELETE FROM clients WHERE id = ?\<close> and nothing else. The
  statement cannot fail on a missing row, so the result is always the new store.
\<close>

definition delete_client :: "int \<Rightarrow> database \<Rightarrow> exn + database" where
  "delete_client client_id db =
     Inr (db\<lparr>clients := filter (\<lambda>c. c_id c \<noteq> client_id) (clients db)\<rparr>)"

text \<open>\<open>SELECT * FROM types ORDER BY client_count DESC\<close>\<close>

definition get_types :: "database \<Rightarrow> shoot_type list" where
  "get_types db = order_by (\<lambda>a b. t_client_count b \<le> t_client_count a) (types db)"

subsection \<open>The file system and the image library\<close>

text \<open>
  What the code asks of its surroundings is a parameter of the model. A path names
  nothing, a directory with its entries in the order \<open>os.listdir\<close> gives them, or
  something that is not a directory. \<open>path_join\<close> is \<open>os.path.join\<close>, \<open>cache_file\<close>
  maps a file name to the text of its path under \<open>Config.cache_dir\<close>, \<open>str_hash\<close> is
  Python's \<open>hash\<close> on strings, and \<open>render src dst\<close> is the outcome of opening the
  image \<open>src\<close>, converting and resizing it and saving the result as \<open>dst\<close>: \<open>None\<close>
  when every step went through, the exception otherwise.
\<close>

datatype fs_node = Dir "string list" | File

record world =
  fs :: "string \<Rightarrow> fs_node option"
  path_join :: "string \<Rightarrow> string \<Rightarrow> string"
  cache_file :: "string \<Rightarrow> string"
  str_hash :: "string \<Rightarrow> int"
  render :: "string \<Rightarrow> string \<Rightarrow> exn option"

text \<open>\<open>os.path.exists\<close>: true of every path that names something, directory or not.\<close>

definition path_exists :: "world \<Rightarrow> string \<Rightarrow> bool" where
  "path_exists w p = (fs w p \<noteq> None)"

definition listdir :: "world \<Rightarrow> string \<Rightarrow> exn + string list" where
  "listdir w p =
     (case fs w p of
        None \<Rightarrow> Inl FileNotFoundError
      | Some File \<Rightarrow> Inl NotADirectoryError
      | Some (Dir entries) \<Rightarrow> Inr entries)"

subsection \<open>Strings\<close>

text \<open>\<open>str.lower\<close> on code points below 256.\<close>

definition lower_char :: "char \<Rightarrow> char" where
  "lower_char c =
     (let n = (of_char c :: nat)
      in if (65 \<le> n \<and> n \<le> 90) \<or> (192 \<le> n \<and> n \<le> 222 \<and> n \<noteq> 215)
         then char_of (n + 32) else c)"

definition lower :: "string \<Rightarrow> string" where
  "lower s = map lower_char s"

definition endswith :: "string \<Rightarrow> string \<Rightarrow> bool" where
  "endswith s suffix =
     (length suffix \<le> length s \<and> drop (length s - length suffix) s = suffix)"

text \<open>\<open>str.isspace\<close> on code points below 256, and \<open>str.strip()\<close>.\<close>

definition isspace :: "char \<Rightarrow> bool" where
  "isspace c =
     (let n = (of_char c :: nat)
      in (9 \<le> n \<and> n \<le> 13) \<or> (28 \<le> n \<and> n \<le> 32) \<or> n = 133 \<or> n = 160)"

definition strip :: "string \<Rightarrow> string" where
  "strip s = rev (dropWhile isspace (rev (dropWhile isspace s)))"

text \<open>The decimal text of an integer, as an f-string prints it.\<close>

fun digits :: "nat \<Rightarrow> string" where
  "digits n =
     (if n < 10 then [char_of (48 + n)]
      else digits (n div 10) @ [char_of (48 + n mod 10)])"

definition show_int :: "int \<Rightarrow> string" where
  "show_int i = (if i < 0 then CHR ''-'' # digits (nat (- i)) else digits (nat i))"

subsection \<open>Adding a client\<close>

text \<open>\<open>Config.theme_color\<close>\<close>

definition theme_color :: string where
  "theme_color = ''#A8E6CF''"

text \<open>
  \<open>_get_or_create_type\<close>: \<open>SELECT id FROM types WHERE name = ?\<close>; the identifier of the
  first row found, or else \<open>INSERT INTO types (name, color, created_at)\<close>, where
  \<open>client_count\<close> takes its default 0, and the identifier of the new row. The name is
  compared character by character.
\<close>

definition get_or_create_type :: "string \<Rightarrow> string \<Rightarrow> database \<Rightarrow> int \<times> database" where
  "get_or_create_type now type_name db =
     (case filter (\<lambda>t. t_name t = type_name) (types db) of
        t # _ \<Rightarrow> (t_id t, db)
      | [] \<Rightarrow>
          (let new_id = next_rowid (types_seq db) (map t_id (types db))
           in (new_id,
               db\<lparr>types := types db @
                     [\<lparr>t_id = new_id, t_name = type_name, t_color = Some theme_color,
                       t_created_at = Some now, t_client_count = 0\<rparr>],
                   types_seq := new_id\<rparr>)))"

definition image_extensions :: "string list" where
  "image_extensions = [''.jpg'', ''.jpeg'', ''.png'', ''.bmp'', ''.gif'']"

text \<open>\<open>any(file.lower().endswith(ext) for ext in image_extensions)\<close>\<close>

definition has_image_extension :: "string \<Rightarrow> bool" where
  "has_image_extension file = list_ex (\<lambda>ext. endswith (lower file) ext) image_extensions"

text \<open>
  The body of the \<open>try\<close> in \<open>_generate_avatar\<close>, after \<open>os.listdir\<close> has answered:
  the loop over the entries. It leaves at the first entry with an image extension, with
  the path of the thumbnail or with the exception of the image library; \<open>Inr None\<close> is
  the loop running to its end.
\<close>

fun avatar_loop :: "world \<Rightarrow> string \<Rightarrow> string \<Rightarrow> string list \<Rightarrow> exn + string option" where
  "avatar_loop w folder_path client_name [] = Inr None"
| "avatar_loop w folder_path client_name (file # files) =
     (if has_image_extension file
      then (let image_path = path_join w folder_path file;
                avatar_path = cache_file w
                  (''avatar_'' @ client_name @ ''_'' @ show_int (str_hash w file) @ ''.jpg'')
            in case render w image_path avatar_path of
                 Some e \<Rightarrow> Inl e
               | None \<Rightarrow> Inr (Some avatar_path))
      else avatar_loop w folder_path client_name files)"

definition avatar_try :: "world \<Rightarrow> string \<Rightarrow> string \<Rightarrow> exn + string option" where
  "avatar_try w folder_path client_name =
     (case listdir w folder_path of
        Inl e \<Rightarrow> Inl e
      | Inr files \<Rightarrow> avatar_loop w folder_path client_name files)"

text \<open>
  \<open>_generate_avatar\<close>: the \<open>try\<close> with its bare \<open>except: pass\<close>, then \<open>return ""\<close>.
\<close>

definition generate_avatar :: "world \<Rightarrow> string \<Rightarrow> string \<Rightarrow> string" where
  "generate_avatar w folder_path client_name =
     (case avatar_try w folder_path client_name of
        Inr (Some avatar_path) \<Rightarrow> avatar_path
      | Inr None \<Rightarrow> ''''
      | Inl e \<Rightarrow> '''')"

text \<open>\<open>SELECT COUNT(*) FROM clients WHERE type_id = ?\<close>\<close>

definition count_clients :: "int \<Rightarrow> database \<Rightarrow> int" where
  "count_clients type_id db =
     int (length (filter (\<lambda>c. c_type_id c = Some type_id) (clients db)))"

text \<open>
  \<open>_update_type_count\<close>:
  \<open>UPDATE types SET client_count = (SELECT COUNT(*) ...) WHERE id = ?\<close>
\<close>

definition update_type_count :: "int \<Rightarrow> database \<Rightarrow> database" where
  "update_type_count type_id db =
     db\<lparr>types :=
          map (\<lambda>t. if t_id t = type_id
                   then t\<lparr>t_client_count := count_clients type_id db\<rparr>
                   else t)
              (types db)\<rparr>"

text \<open>
  \<open>add_client\<close>. \<open>now_type\<close> and \<open>now\<close> are the two readings of the clock, the first
  taken in \<open>_get_or_create_type\<close>. The result is the new client's identifier or the
  exception, together with the store as the call leaves it.
\<close>

definition add_client ::
  "world \<Rightarrow> string \<Rightarrow> string \<Rightarrow> string \<Rightarrow> string \<Rightarrow> string \<Rightarrow> string option \<Rightarrow>
   string \<Rightarrow> string \<Rightarrow> string \<Rightarrow> database \<Rightarrow> (exn + int) \<times> database" where
  "add_client w now_type now name folder_path type_name date phone email notes db =
     (if \<not> path_exists w folder_path then (Inl (ValueError folder_path), db)
      else
        (let (type_id, db1) = get_or_create_type now_type type_name db;
             avatar_path = generate_avatar w folder_path name;
             client_id = next_rowid (clients_seq db1) (map c_id (clients db1));
             db2 = db1\<lparr>clients := clients db1 @
                         [\<lparr>c_id = client_id, c_name = name, c_folder_path = folder_path,
                           c_type_id = Some type_id, c_date = date, c_phone = Some phone,
                           c_email = Some email, c_notes = Some notes,
                           c_avatar_path = Some avatar_path,
                           c_created_at = Some now, c_updated_at = Some now\<rparr>],
                       clients_seq := client_id\<rparr>
         in (Inr client_id, update_type_count type_id db2)))"

subsection \<open>The add-client dialog\<close>

text \<open>
  \<open>confirm_add\<close>, the handler of the dialog's button, is the caller of \<open>add_client\<close>.
  Its arguments are the texts of the four entry fields and the user's answer to the
  question whether a new type may be created.
\<close>

datatype dialog_outcome =
  Name_missing
  | Folder_invalid
  | Type_missing
  | Declined
  | Add_failed exn
  | Added int

definition confirm_add ::
  "world \<Rightarrow> bool \<Rightarrow> string \<Rightarrow> string \<Rightarrow> string \<Rightarrow> string \<Rightarrow> string \<Rightarrow> string \<Rightarrow>
   database \<Rightarrow> dialog_outcome \<times> database" where
  "confirm_add w answer now_type now name_entry folder_entry type_entry date_entry db =
     (let name = strip name_entry;
          folder_path = strip folder_entry;
          type_name = strip type_entry;
          date = strip date_entry
      in if name = [] then (Name_missing, db)
         else if folder_path = [] \<or> \<not> path_exists w folder_path then (Folder_invalid, db)
         else if type_name = [] then (Type_missing, db)
         else if type_name \<notin> set (map t_name (get_types db)) \<and> \<not> answer then (Declined, db)
         else (case add_client w now_type now name folder_path type_name (Some date)
                      '''' '''' '''' db of
                 (Inl e, db') \<Rightarrow> (Add_failed e, db')
               | (Inr client_id, db') \<Rightarrow> (Added client_id, db')))"

subsection \<open>Reading clients\<close>

text \<open>
  \<open>FROM clients c LEFT JOIN types t ON c.type_id = t.id\<close>, selecting
  \<open>c.*, t.name, t.color\<close>: every client row once for each type row with its
  \<open>type_id\<close>, and once with \<open>NULL\<close> for both type columns when there is none.
\<close>

type_synonym joined_row = "client \<times> string option \<times> string option"

definition left_join :: "database \<Rightarrow> joined_row list" where
  "left_join db =
     concat (map (\<lambda>c. case filter (\<lambda>t. c_type_id c = Some (t_id t)) (types db) of
                         [] \<Rightarrow> [(c, None, None)]
                       | ts \<Rightarrow> map (\<lambda>t. (c, Some (t_name t), t_color t)) ts)
                 (clients db))"

text \<open>
  The order of text values is that of their code points, a proper prefix first; \<open>NULL\<close>
  sorts below every text.
\<close>

fun str_less :: "string \<Rightarrow> string \<Rightarrow> bool" where
  "str_less [] [] = False"
| "str_less [] (y # ys) = True"
| "str_less (x # xs) [] = False"
| "str_less (x # xs) (y # ys) =
     ((of_char x :: nat) < of_char y \<or> (x = y \<and> str_less xs ys))"

fun opt_less :: "string option \<Rightarrow> string option \<Rightarrow> bool" where
  "opt_less None None = False"
| "opt_less None (Some b) = True"
| "opt_less (Some a) None = False"
| "opt_less (Some a) (Some b) = str_less a b"

text \<open>\<open>get_all_clients\<close>: the join, \<open>ORDER BY c.date DESC, c.name\<close>.\<close>

definition get_all_clients :: "database \<Rightarrow> joined_row list" where
  "get_all_clients db =
     order_by (\<lambda>(a, _) (b, _).
                 opt_less (c_date b) (c_date a)
                 \<or> (c_date a = c_date b \<and> \<not> str_less (c_name b) (c_name a)))
              (left_join db)"

text \<open>
  SQLite's \<open>LIKE\<close>: \<open>%\<close> in the pattern stands for any run of characters, \<open>_\<close> for
  any one character, and every other character for itself, where the letters A to Z
  match without regard to case. There is no escape character. \<open>NULL LIKE p\<close> is not
  true.
\<close>

definition ascii_lower :: "char \<Rightarrow> char" where
  "ascii_lower c =
     (let n = (of_char c :: nat) in if 65 \<le> n \<and> n \<le> 90 then char_of (n + 32) else c)"

fun like :: "string \<Rightarrow> string \<Rightarrow> bool" where
  "like [] s = (s = [])"
| "like (p # ps) [] = (p = CHR ''%'' \<and> like ps [])"
| "like (p # ps) (c # cs) =
     (if p = CHR ''%'' then like ps (c # cs) \<or> like (p # ps) cs
      else (p = CHR ''_'' \<or> ascii_lower p = ascii_lower c) \<and> like ps cs)"

definition opt_like :: "string \<Rightarrow> string option \<Rightarrow> bool" where
  "opt_like pattern v = (case v of None \<Rightarrow> False | Some s \<Rightarrow> like pattern s)"

text \<open>
  \<open>search_clients\<close>: the same join,
  \<open>WHERE c.name LIKE ? OR c.phone LIKE ? OR c.notes LIKE ? OR t.name LIKE ?\<close> with the
  one pattern \<open>f"%{keyword}%"\<close>, and \<open>ORDER BY c.date DESC\<close>.
\<close>

definition search_clients :: "string \<Rightarrow> database \<Rightarrow> joined_row list" where
  "search_clients keyword db =
     (let search_term = ''%'' @ keyword @ ''%''
      in order_by (\<lambda>(a, _) (b, _). \<not> opt_less (c_date a) (c_date b))
           (filter (\<lambda>(c, type_name, type_color).
                      like search_term (c_name c) \<or> opt_like search_term (c_phone c)
                      \<or> opt_like search_term (c_notes c) \<or> opt_like search_term type_name)
                   (left_join db)))"

subsection \<open>Updating a client\<close>

text \<open>
  The values Python binds to the placeholders of a statement, and the columns of
  \<open>clients\<close> a keyword argument of \<open>update_client\<close> can name.
\<close>

datatype sql_value = SNull | SInt int | SText string

datatype column =
  Col_name | Col_folder_path | Col_type_id | Col_date | Col_phone | Col_email
  | Col_notes | Col_avatar_path | Col_created_at | Col_updated_at

text \<open>
  Writing a bound value into a column. A text column stores an integer as its decimal
  text; a \<open>NOT NULL\<close> column refuses \<open>NULL\<close>. The model keeps integers only in
  \<open>type_id\<close>: a text bound to it is outside the model, answered by \<open>None\<close>.
\<close>

definition text_value :: "sql_value \<Rightarrow> string option" where
  "text_value v = (case v of SNull \<Rightarrow> None | SInt i \<Rightarrow> Some (show_int i) | SText s \<Rightarrow> Some s)"

fun store :: "column \<Rightarrow> sql_value \<Rightarrow> client \<Rightarrow> (exn + client) option" where
  "store Col_name v c =
     Some (case text_value v of None \<Rightarrow> Inl IntegrityError | Some s \<Rightarrow> Inr (c\<lparr>c_name := s\<rparr>))"
| "store Col_folder_path v c =
     Some (case text_value v of None \<Rightarrow> Inl IntegrityError
           | Some s \<Rightarrow> Inr (c\<lparr>c_folder_path := s\<rparr>))"
| "store Col_type_id v c =
     (case v of SNull \<Rightarrow> Some (Inr (c\<lparr>c_type_id := None\<rparr>))
      | SInt i \<Rightarrow> Some (Inr (c\<lparr>c_type_id := Some i\<rparr>))
      | SText s \<Rightarrow> None)"
| "store Col_date v c = Some (Inr (c\<lparr>c_date := text_value v\<rparr>))"
| "store Col_phone v c = Some (Inr (c\<lparr>c_phone := text_value v\<rparr>))"
| "store Col_email v c = Some (Inr (c\<lparr>c_email := text_value v\<rparr>))"
| "store Col_notes v c = Some (Inr (c\<lparr>c_notes := text_value v\<rparr>))"
| "store Col_avatar_path v c = Some (Inr (c\<lparr>c_avatar_path := text_value v\<rparr>))"
| "store Col_created_at v c = Some (Inr (c\<lparr>c_created_at := text_value v\<rparr>))"
| "store Col_updated_at v c = Some (Inr (c\<lparr>c_updated_at := text_value v\<rparr>))"

fun assign :: "(column \<times> sql_value) list \<Rightarrow> client \<Rightarrow> (exn + client) option" where
  "assign [] c = Some (Inr c)"
| "assign ((k, v) # kvs) c =
     (case store k v c of
        None \<Rightarrow> None
      | Some (Inl e) \<Rightarrow> Some (Inl e)
      | Some (Inr c') \<Rightarrow> assign kvs c')"

fun update_rows ::
  "(client \<Rightarrow> bool) \<Rightarrow> (client \<Rightarrow> (exn + client) option) \<Rightarrow> client list \<Rightarrow>
   (exn + client list) option" where
  "update_rows sel f [] = Some (Inr [])"
| "update_rows sel f (c # cs) =
     (case (if sel c then f c else Some (Inr c)) of
        None \<Rightarrow> None
      | Some (Inl e) \<Rightarrow> Some (Inl e)
      | Some (Inr c') \<Rightarrow>
          (case update_rows sel f cs of
             None \<Rightarrow> None
           | Some (Inl e) \<Rightarrow> Some (Inl e)
           | Some (Inr cs') \<Rightarrow> Some (Inr (c' # cs'))))"

text \<open>
  \<open>Database.execute_query\<close> on the statement
  \<open>UPDATE clients SET k1 = ?, ..., kn = ?, updated_at = ? WHERE id = ?\<close>, given by the
  columns \<open>k1 ... kn\<close> of its \<open>SET\<close> list, with a sequence of values to bind. The
  \<open>sqlite3\<close> module first compiles the statement: with no column the text reads
  \<open>SET , updated_at = ?\<close>, which is not SQL (\<open>OperationalError\<close>). It then
  refuses a sequence whose length is not the number of placeholders
  (\<open>ProgrammingError\<close>). Only then does the statement run, on the rows whose \<open>id\<close>
  is the last value bound; a failing row leaves the table as it was. The outer \<open>None\<close>
  is a run outside the model (see \<open>store\<close>).
\<close>

definition execute_update ::
  "column list \<Rightarrow> sql_value list \<Rightarrow> database \<Rightarrow> (exn + database) option" where
  "execute_update cols params db =
     (if cols = [] then Some (Inl OperationalError)
      else if length params \<noteq> length cols + 2 then Some (Inl ProgrammingError)
      else
        (let n = length cols;
             sets = zip cols (take n params) @ [(Col_updated_at, params ! n)]
         in case update_rows (\<lambda>c. params ! (n + 1) = SInt (c_id c)) (assign sets) (clients db) of
              None \<Rightarrow> None
            | Some (Inl e) \<Rightarrow> Some (Inl e)
            | Some (Inr rows) \<Rightarrow> Some (Inr (db\<lparr>clients := rows\<rparr>))))"

text \<open>
  \<open>update_client\<close>. \<open>kwargs\<close> is the dictionary of keyword arguments in its order.
  The source appends \<open>client_id\<close> to \<open>params\<close> right after the loop, and then the
  time and \<open>client_id\<close> once more after building the text of the statement.
\<close>

definition update_client ::
  "string \<Rightarrow> int \<Rightarrow> (column \<times> sql_value) list \<Rightarrow> database \<Rightarrow> (exn + database) option" where
  "update_client now client_id kwargs db =
     (let set_clause = map fst kwargs;
          params = map snd kwargs;
          params = params @ [SInt client_id];
          params = params @ [SText now];
          params = params @ [SInt client_id]
      in execute_update set_clause params db)"

subsection \<open>Literal substrings\<close>

text \<open>Python's \<open>key in s\<close>: \<open>key\<close> occurs in \<open>s\<close> as it is written.\<close>

fun contains :: "string \<Rightarrow> string \<Rightarrow> bool" where
  "contains key [] = (key = [])"
| "contains key (c # cs) = (take (length key) (c # cs) = key \<or> contains key cs)"

definition opt_contains :: "string \<Rightarrow> string option \<Rightarrow> bool" where
  "opt_contains key v = (case v of None \<Rightarrow> False | Some s \<Rightarrow> contains key s)"

section \<open>Example data\<close>

text \<open>
  A file system with Mary's folder (one text file, one photograph), Tom's empty folder,
  a folder whose only photograph cannot be decoded, and a plain file.
\<close>

definition example_world :: world where
  "example_world =
     \<lparr>fs = (\<lambda>p. if p = ''/nas/shoots/mary-2024'' then Some (Dir [''notes.txt'', ''IMG_1.JPG''])
                else if p = ''/nas/shoots/tom-2024'' then Some (Dir [])
                else if p = ''/nas/shoots/broken'' then Some (Dir [''bad.png''])
                else if p = ''/nas/readme.txt'' then Some File
                else None),
      path_join = (\<lambda>d f. d @ ''/'' @ f),
      cache_file = (\<lambda>f. ''/cache/'' @ f),
      str_hash = (\<lambda>s. int (length s)),
      render = (\<lambda>src dst. if src = ''/nas/shoots/broken/bad.png'' then Some ImageError else None)\<rparr>"

definition empty_db :: database where
  "empty_db = \<lparr>clients = [], types = [], clients_seq = 0, types_seq = 0\<rparr>"

definition wedding :: shoot_type where
  "wedding = \<lparr>t_id = 1, t_name = ''Wedding'', t_color = Some theme_color,
              t_created_at = Some ''2024-03-20 10:00:00'', t_client_count = 2\<rparr>"

definition person :: "int \<Rightarrow> string \<Rightarrow> string \<Rightarrow> string \<Rightarrow> client" where
  "person i name folder_path date =
     \<lparr>c_id = i, c_name = name, c_folder_path = folder_path, c_type_id = Some 1,
      c_date = Some date, c_phone = Some '''', c_email = Some '''', c_notes = Some '''',
      c_avatar_path = Some '''', c_created_at = Some ''2024-03-20 10:00:00'',
      c_updated_at = Some ''2024-03-20 10:00:00''\<rparr>"

text \<open>Mary and Tom, both weddings.\<close>

definition mary_tom_db :: database where
  "mary_tom_db =
     \<lparr>clients = [person 1 ''Mary'' ''/nas/shoots/mary-2024'' ''2024-03-20'',
                 person 2 ''Tom'' ''/nas/shoots/tom-2024'' ''2024-04-01''],
      types = [wedding], clients_seq = 2, types_seq = 1\<rparr>"

text \<open>Three clients photographed on the same day, stored in the order B, A, C.\<close>

definition same_day_db :: database where
  "same_day_db =
     \<lparr>clients = [person 1 ''B'' ''/nas/b'' ''2024-05-01'',
                 person 2 ''A'' ''/nas/a'' ''2024-05-01'',
                 person 3 ''C'' ''/nas/c'' ''2024-05-01''],
      types = [wedding], clients_seq = 3, types_seq = 1\<rparr>"

text \<open>One client, named abc.\<close>

definition abc_db :: database where
  "abc_db =
     \<lparr>clients = [person 1 ''abc'' ''/nas/abc'' ''2024-05-01''],
      types = [wedding], clients_seq = 1, types_seq = 1\<rparr>"

text \<open>The store after Mary was deleted from \<open>mary_tom_db\<close>: Tom alone, the count still 2.\<close>

definition tom_db :: database where
  "tom_db =
     \<lparr>clients = [person 2 ''Tom'' ''/nas/shoots/tom-2024'' ''2024-04-01''],
      types = [wedding], clients_seq = 2, types_seq = 1\<rparr>"

text \<open>
  A store whose counts have drifted: Tom is the only wedding and Zoe the only portrait,
  but the stored count of weddings is 7.
\<close>

definition portrait :: shoot_type where
  "portrait = \<lparr>t_id = 2, t_name = ''Portrait'', t_color = Some theme_color,
               t_created_at = Some ''2024-03-21 10:00:00'', t_client_count = 1\<rparr>"

definition drifted_db :: database where
  "drifted_db =
     \<lparr>clients = [person 2 ''Tom'' ''/nas/shoots/tom-2024'' ''2024-04-01'',
                 (person 3 ''Zoe'' ''/nas/shoots/zoe-2024'' ''2024-04-02'')\<lparr>c_type_id := Some 2\<rparr>],
      types = [wedding\<lparr>t_client_count := 7\<rparr>, portrait], clients_seq = 3, types_seq = 2\<rparr>"

text \<open>Adding Ann, a wedding, to it; and adding Mary and then Tom to the empty store.\<close>

definition add_ann :: "(exn + int) \<times> database" where
  "add_ann = add_client example_world ''2024-06-01 09:00:00'' ''2024-06-01 09:00:01'' ''Ann''
               ''/nas/shoots/tom-2024'' ''Wedding'' None '''' '''' '''' drifted_db"

definition add_mary :: "(exn + int) \<times> database" where
  "add_mary = add_client example_world ''2024-03-20 10:00:00'' ''2024-03-20 10:00:01'' ''Mary''
                ''/nas/shoots/mary-2024'' ''Wedding'' (Some ''2024-03-20'') '''' '''' '''' empty_db"

definition add_tom :: "(exn + int) \<times> database" where
  "add_tom = add_client example_world ''2024-04-01 10:00:00'' ''2024-04-01 10:00:01'' ''Tom''
               ''/nas/shoots/tom-2024'' ''Wedding'' (Some ''2024-04-01'') '''' '''' ''''
               (snd add_mary)"

section \<open>Properties\<close>

subsection \<open>delete_client\<close>

lemma filter_absent: "\<forall>x \<in> set xs. P x \<Longrightarrow> filter P xs = xs"
  by (induction xs) auto

text \<open>
  C3. For every identifier, \<open>delete_client\<close> succeeds and yields a store in which no
  client row has that identifier, every other client row is kept in place, and the types
  table (so also the answer of \<open>get_types\<close>, with every stored \<open>client_count\<close>) is what
  it was; when no row has the identifier the store is unchanged.
\<close>

theorem delete_client_frame:
  "\<exists>db'. delete_client cid db = Inr db'
     \<and> clients db' = filter (\<lambda>c. c_id c \<noteq> cid) (clients db)
     \<and> cid \<notin> c_id ` set (clients db')
     \<and> types db' = types db
     \<and> get_types db' = get_types db
     \<and> (cid \<notin> c_id ` set (clients db) \<longrightarrow> db' = db)"
proof -
  let ?db' = "db\<lparr>clients := filter (\<lambda>c. c_id c \<noteq> cid) (clients db)\<rparr>"
  have run: "delete_client cid db = Inr ?db'"
    by (simp add: delete_client_def)
  have gone: "cid \<notin> c_id ` set (clients ?db')"
    by auto
  have same: "get_types ?db' = get_types db"
    by (simp add: get_types_def)
  have noop: "cid \<notin> c_id ` set (clients db) \<longrightarrow> ?db' = db"
  proof
    assume "cid \<notin> c_id ` set (clients db)"
    then have "\<forall>c \<in> set (clients db). c_id c \<noteq> cid"
      by auto
    then have "filter (\<lambda>c. c_id c \<noteq> cid) (clients db) = clients db"
      by (rule filter_absent)
    then show "?db' = db"
      by simp
  qed
  from run gone same noop show ?thesis
    by simp
qed

theorem delete_client_frame_witness:
  "3 \<notin> c_id ` set (clients mary_tom_db) \<and> delete_client 3 mary_tom_db = Inr mary_tom_db"
proof -
  have absent: "3 \<notin> c_id ` set (clients mary_tom_db)"
    by (simp add: mary_tom_db_def person_def)
  from delete_client_frame [of 3 mary_tom_db] obtain db' where
    run: "delete_client 3 mary_tom_db = Inr db'" and
    noop: "3 \<notin> c_id ` set (clients mary_tom_db) \<longrightarrow> db' = mary_tom_db"
    by blast
  from absent noop run show ?thesis
    by simp
qed

text \<open>
  The scenario of the specification: after Mary is deleted, \<open>get_types\<close> still
  reports two weddings and \<open>get_all_clients\<close> returns Tom only.
\<close>

lemma delete_mary_keeps_count:
  "delete_client 1 mary_tom_db = Inr tom_db
   \<and> map (\<lambda>t. (t_name t, t_client_count t)) (get_types tom_db) = [(''Wedding'', 2)]
   \<and> map (\<lambda>(c, _). c_name c) (get_all_clients tom_db) = [''Tom'']"
  by (simp add: delete_client_def mary_tom_db_def tom_db_def person_def get_types_def
      get_all_clients_def left_join_def order_by_def wedding_def)

subsection \<open>Thumbnails\<close>

lemma avatar_loop_find:
  "avatar_loop w folder_path client_name files =
     (case find has_image_extension files of
        None \<Rightarrow> Inr None
      | Some file \<Rightarrow>
          (case render w (path_join w folder_path file)
                  (cache_file w (''avatar_'' @ client_name @ ''_''
                                   @ show_int (str_hash w file) @ ''.jpg'')) of
             Some e \<Rightarrow> Inl e
           | None \<Rightarrow> Inr (Some (cache_file w (''avatar_'' @ client_name @ ''_''
                                   @ show_int (str_hash w file) @ ''.jpg'')))))"
  by (induction files) (simp_all add: Let_def split: option.split)

text \<open>
  C8. \<open>_generate_avatar\<close> returns a string for every folder path and client name, and
  the empty string whenever a step failed: whatever exception the body of its \<open>try\<close>
  ends with; a folder path that names nothing, or something that is not a directory; a
  directory none of whose entries has an image extension; and a first image entry that
  the image library cannot open, convert, resize or save.
\<close>

theorem generate_avatar_swallows:
  "(avatar_try w folder_path client_name = Inl e
      \<longrightarrow> generate_avatar w folder_path client_name = '''')
   \<and> (fs w folder_path = None \<longrightarrow> generate_avatar w folder_path client_name = '''')
   \<and> (fs w folder_path = Some File \<longrightarrow> generate_avatar w folder_path client_name = '''')
   \<and> (fs w folder_path = Some (Dir files) \<and> find has_image_extension files = None
      \<longrightarrow> generate_avatar w folder_path client_name = '''')
   \<and> (fs w folder_path = Some (Dir files) \<and> find has_image_extension files = Some file
       \<and> render w (path_join w folder_path file)
            (cache_file w (''avatar_'' @ client_name @ ''_''
                             @ show_int (str_hash w file) @ ''.jpg'')) = Some e
      \<longrightarrow> generate_avatar w folder_path client_name = '''')"
  by (simp add: generate_avatar_def avatar_try_def listdir_def avatar_loop_find)

theorem generate_avatar_swallows_witness:
  "generate_avatar example_world ''/nas/missing'' ''Ann'' = ''''
   \<and> generate_avatar example_world ''/nas/readme.txt'' ''Ann'' = ''''
   \<and> generate_avatar example_world ''/nas/shoots/tom-2024'' ''Tom'' = ''''
   \<and> generate_avatar example_world ''/nas/shoots/broken'' ''Ann'' = ''''"
proof -
  have missing: "fs example_world ''/nas/missing'' = None"
    by (simp add: example_world_def)
  have plain: "fs example_world ''/nas/readme.txt'' = Some File"
    by (simp add: example_world_def)
  have bare: "fs example_world ''/nas/shoots/tom-2024'' = Some (Dir [])
              \<and> find has_image_extension [] = None"
    by (simp add: example_world_def)
  have bad: "fs example_world ''/nas/shoots/broken'' = Some (Dir [''bad.png''])
     \<and> find has_image_extension [''bad.png''] = Some ''bad.png''
     \<and> render example_world (path_join example_world ''/nas/shoots/broken'' ''bad.png'')
          (cache_file example_world (''avatar_'' @ ''Ann'' @ ''_''
              @ show_int (str_hash example_world ''bad.png'') @ ''.jpg'')) = Some ImageError"
    by (simp add: example_world_def has_image_extension_def image_extensions_def
        endswith_def lower_def lower_char_def)
  from missing generate_avatar_swallows [of example_world "''/nas/missing''" "''Ann''"]
  have a: "generate_avatar example_world ''/nas/missing'' ''Ann'' = ''''"
    by blast
  from plain generate_avatar_swallows [of example_world "''/nas/readme.txt''" "''Ann''"]
  have b: "generate_avatar example_world ''/nas/readme.txt'' ''Ann'' = ''''"
    by blast
  from bare generate_avatar_swallows [of example_world "''/nas/shoots/tom-2024''" "''Tom''" _ "[]"]
  have c: "generate_avatar example_world ''/nas/shoots/tom-2024'' ''Tom'' = ''''"
    by blast
  from bad generate_avatar_swallows [of example_world "''/nas/shoots/broken''" "''Ann''"
      ImageError "[''bad.png'']" "''bad.png''"]
  have d: "generate_avatar example_world ''/nas/shoots/broken'' ''Ann'' = ''''"
    by blast
  from a b c d show ?thesis
    by simp
qed

subsection \<open>The folder check of add_client\<close>

text \<open>
  C4, as the code has it. When \<open>os.path.exists\<close> is false of \<open>folder_path\<close>, so that
  the path names nothing at all, \<open>add_client\<close> raises \<open>ValueError\<close> and leaves the
  store as it was: no type row is created and no client row is inserted.
\<close>

theorem add_client_missing_folder:
  "\<not> path_exists w folder_path \<Longrightarrow>
   add_client w now_type now name folder_path type_name date phone email notes db
     = (Inl (ValueError folder_path), db)"
  by (simp add: add_client_def)

theorem add_client_missing_folder_witness:
  "\<not> path_exists example_world ''/nas/missing''
   \<and> add_client example_world ''2024-03-20 10:00:00'' ''2024-03-20 10:00:01'' ''Mary''
        ''/nas/missing'' ''Wedding'' (Some ''2024-03-20'') '''' '''' '''' empty_db
      = (Inl (ValueError ''/nas/missing''), empty_db)"
proof -
  have absent: "\<not> path_exists example_world ''/nas/missing''"
    by (simp add: path_exists_def example_world_def)
  from add_client_missing_folder [OF absent] absent show ?thesis
    by simp
qed

text \<open>
  The check asks whether the path exists, not whether it is a directory: given the path
  of a plain file, \<open>add_client\<close> succeeds, creates the type and inserts the client.
\<close>

theorem add_client_existing_file_counterexample:
  "fs example_world ''/nas/readme.txt'' = Some File
   \<and> fst (add_client example_world ''2024-03-20 10:00:00'' ''2024-03-20 10:00:01'' ''Mary''
             ''/nas/readme.txt'' ''Wedding'' (Some ''2024-03-20'') '''' '''' '''' empty_db) = Inr 1
   \<and> map c_folder_path (clients (snd (add_client example_world ''2024-03-20 10:00:00''
         ''2024-03-20 10:00:01'' ''Mary'' ''/nas/readme.txt'' ''Wedding'' (Some ''2024-03-20'')
         '''' '''' '''' empty_db))) = [''/nas/readme.txt'']
   \<and> map t_name (types (snd (add_client example_world ''2024-03-20 10:00:00''
         ''2024-03-20 10:00:01'' ''Mary'' ''/nas/readme.txt'' ''Wedding'' (Some ''2024-03-20'')
         '''' '''' '''' empty_db))) = [''Wedding'']"
  by (simp add: add_client_def path_exists_def example_world_def empty_db_def
      get_or_create_type_def next_rowid_def generate_avatar_def avatar_try_def listdir_def
      update_type_count_def count_clients_def)

subsection \<open>The empty display name\<close>

text \<open>
  C9, as the code has it. The empty display name is refused by the dialog: when the
  name entry is empty once its surrounding white space is stripped, \<open>confirm_add\<close>
  reports the missing name and returns without calling \<open>add_client\<close>, so the store is
  as it was, with no client row inserted and no type row created.
\<close>

theorem confirm_add_empty_name:
  "strip name_entry = [] \<Longrightarrow>
   confirm_add w answer now_type now name_entry folder_entry type_entry date_entry db
     = (Name_missing, db)"
  by (simp add: confirm_add_def)

theorem confirm_add_empty_name_witness:
  "strip ''  '' = []
   \<and> confirm_add example_world True ''2024-03-20 10:00:00'' ''2024-03-20 10:00:01'' ''  ''
        ''/nas/shoots/tom-2024'' ''Wedding'' ''2024-03-20'' empty_db = (Name_missing, empty_db)"
proof -
  have blank: "strip ''  '' = []"
    by (simp add: strip_def isspace_def)
  from confirm_add_empty_name [OF blank] blank show ?thesis
    by simp
qed

text \<open>
  \<open>add_client\<close> itself never looks at the name: called with the empty name and an
  existing folder it succeeds, inserts a client row with that name and creates the type.
\<close>

theorem add_client_empty_name_counterexample:
  "fst (add_client example_world ''2024-03-20 10:00:00'' ''2024-03-20 10:00:01'' ''''
          ''/nas/shoots/tom-2024'' ''Wedding'' (Some ''2024-03-20'') '''' '''' '''' empty_db) = Inr 1
   \<and> map c_name (clients (snd (add_client example_world ''2024-03-20 10:00:00''
         ''2024-03-20 10:00:01'' '''' ''/nas/shoots/tom-2024'' ''Wedding'' (Some ''2024-03-20'')
         '''' '''' '''' empty_db))) = ['''']
   \<and> map t_name (types (snd (add_client example_world ''2024-03-20 10:00:00''
         ''2024-03-20 10:00:01'' '''' ''/nas/shoots/tom-2024'' ''Wedding'' (Some ''2024-03-20'')
         '''' '''' '''' empty_db))) = [''Wedding'']"
  by (simp add: add_client_def path_exists_def example_world_def empty_db_def
      get_or_create_type_def next_rowid_def generate_avatar_def avatar_try_def listdir_def
      update_type_count_def count_clients_def)

subsection \<open>update_client\<close>

text \<open>
  The model of the statement does bind and write when the number of values is right:
  with one column, its value, the time and the identifier, Mary's telephone number and
  her \<open>updated_at\<close> are set and Tom's row is left alone.
\<close>

lemma execute_update_binds:
  "execute_update [Col_phone] [SText ''555'', SText ''2024-06-01 09:00:00'', SInt 1] mary_tom_db
     = Some (Inr (mary_tom_db\<lparr>clients :=
         [(person 1 ''Mary'' ''/nas/shoots/mary-2024'' ''2024-03-20'')
            \<lparr>c_phone := Some ''555'', c_updated_at := Some ''2024-06-01 09:00:00''\<rparr>,
          person 2 ''Tom'' ''/nas/shoots/tom-2024'' ''2024-04-01'']\<rparr>))"
  by (simp add: execute_update_def mary_tom_db_def person_def text_value_def)

text \<open>
  C1. \<open>update_client\<close> binds one value too many: \<open>client_id\<close> is appended to
  \<open>params\<close> twice, so a statement with \<open>n + 2\<close> placeholders is given \<open>n + 3\<close>
  values. Every call therefore ends in an exception and writes nothing: with no field
  the statement does not compile (\<open>OperationalError\<close>), with one field or more the
  binding is refused (\<open>ProgrammingError\<close>), whether or not the client exists.
\<close>

theorem update_client_always_fails:
  "update_client now client_id kwargs db
     = Some (Inl (if kwargs = [] then OperationalError else ProgrammingError))"
  by (simp add: update_client_def execute_update_def)

text \<open>Renaming Mary, who is in the store, fails.\<close>

lemma update_client_name_fails:
  "1 \<in> c_id ` set (clients mary_tom_db)
   \<and> update_client ''2024-06-01 09:00:00'' 1 [(Col_name, SText ''Maria'')] mary_tom_db
       = Some (Inl ProgrammingError)"
  by (simp add: update_client_def execute_update_def mary_tom_db_def person_def)

subsection \<open>The order of the answers\<close>

text \<open>
  The two comparisons are linear orders, and ordering by insertion sorts: the answer of
  \<open>search_clients\<close> is in descending order of date, that of \<open>get_all_clients\<close> in
  descending order of date and, within a date, in ascending order of name.
\<close>

lemma str_less_irrefl: "\<not> str_less s s"
  by (induction s) auto

lemma str_less_trans: "str_less a b \<Longrightarrow> str_less b c \<Longrightarrow> str_less a c"
proof (induction a b arbitrary: c rule: str_less.induct)
  case 1
  then show ?case by simp
next
  case (2 y ys)
  then show ?case by (cases c) simp_all
next
  case (3 x xs)
  then show ?case by simp
next
  case (4 x xs y ys)
  show ?case
  proof (cases c)
    case Nil
    with 4 show ?thesis by simp
  next
    case (Cons z zs)
    with "4.prems" have
      xy: "(of_char x :: nat) < of_char y \<or> (x = y \<and> str_less xs ys)" and
      yz: "(of_char y :: nat) < of_char z \<or> (y = z \<and> str_less ys zs)"
      by simp_all
    from xy yz "4.IH" [of zs] have
      "(of_char x :: nat) < of_char z \<or> (x = z \<and> str_less xs zs)"
      by (elim disjE conjE) simp_all
    with Cons show ?thesis by simp
  qed
qed

lemma str_less_total: "\<not> str_less a b \<Longrightarrow> \<not> str_less b a \<Longrightarrow> a = b"
proof (induction a b rule: str_less.induct)
  case (4 x xs y ys)
  from "4.prems" have "\<not> (of_char x :: nat) < of_char y" "\<not> (of_char y :: nat) < of_char x"
    by simp_all
  then have "(of_char x :: nat) = of_char y"
    by linarith
  then have "x = y"
    by simp
  with 4 show ?case
    by simp
qed simp_all

lemma opt_less_irrefl: "\<not> opt_less a a"
  by (cases a) (simp_all add: str_less_irrefl)

lemma opt_less_trans: "opt_less a b \<Longrightarrow> opt_less b c \<Longrightarrow> opt_less a c"
proof (cases a; cases b; cases c)
qed (simp_all, erule (1) str_less_trans)

lemma opt_less_total: "\<not> opt_less a b \<Longrightarrow> \<not> opt_less b a \<Longrightarrow> a = b"
proof (cases a; cases b)
qed (simp_all, erule (1) str_less_total)


lemma opt_less_asym: "opt_less a b \<Longrightarrow> \<not> opt_less b a"
  using opt_less_trans [of a b a] opt_less_irrefl [of a] by blast

lemma str_less_asym: "str_less a b \<Longrightarrow> \<not> str_less b a"
  using str_less_trans [of a b a] str_less_irrefl [of a] by blast

lemma opt_not_less_trans: "\<not> opt_less a b \<Longrightarrow> \<not> opt_less b c \<Longrightarrow> \<not> opt_less a c"
  using opt_less_total [of a b] opt_less_trans [of b a c] by blast

lemma str_not_less_trans: "\<not> str_less b a \<Longrightarrow> \<not> str_less c b \<Longrightarrow> \<not> str_less c a"
  using str_less_total [of b a] str_less_trans [of c a b] by blast

lemma set_place: "set (place gf x ys) = insert x (set ys)"
  by (induction ys) auto

lemma sorted_place:
  assumes total: "\<And>a b. gf a b \<or> gf b a"
    and trans: "\<And>a b c. gf a b \<Longrightarrow> gf b c \<Longrightarrow> gf a c"
  shows "sorted_wrt gf ys \<Longrightarrow> sorted_wrt gf (place gf x ys)"
proof (induction ys)
  case Nil
  show ?case by simp
next
  case (Cons y ys)
  from Cons.prems have tail: "sorted_wrt gf ys" and head: "\<forall>z \<in> set ys. gf y z"
    by simp_all
  show ?case
  proof (cases "gf x y")
    case True
    from True head trans have "\<forall>z \<in> set ys. gf x z"
      by blast
    with True Cons.prems show ?thesis
      by simp
  next
    case False
    with total have "gf y x"
      by blast
    with head have "\<forall>z \<in> set (place gf x ys). gf y z"
      by (simp add: set_place)
    with False Cons.IH [OF tail] show ?thesis
      by simp
  qed
qed

lemma sorted_order_by:
  assumes total: "\<And>a b. gf a b \<or> gf b a"
    and trans: "\<And>a b c. gf a b \<Longrightarrow> gf b c \<Longrightarrow> gf a c"
  shows "sorted_wrt gf (order_by gf xs)"
proof (induction xs)
  case Nil
  show ?case by (simp add: order_by_def)
next
  case (Cons x xs)
  from Cons have "sorted_wrt gf (foldr (place gf) xs [])"
    by (simp add: order_by_def)
  from sorted_place [of gf, OF total trans this] show ?case
    by (simp add: order_by_def)
qed

lemma search_clients_by_date:
  "sorted_wrt (\<lambda>(a, _) (b, _). \<not> opt_less (c_date a) (c_date b)) (search_clients keyword db)"
  unfolding search_clients_def Let_def
proof (rule sorted_order_by)
  fix a b :: joined_row
  show "(case a of (a, _) \<Rightarrow> \<lambda>(b, _). \<not> opt_less (c_date a) (c_date b)) b
      \<or> (case b of (a, _) \<Rightarrow> \<lambda>(b, _). \<not> opt_less (c_date a) (c_date b)) a"
    using opt_less_asym by (cases a; cases b) auto
next
  fix a b c :: joined_row
  assume "(case a of (a, _) \<Rightarrow> \<lambda>(b, _). \<not> opt_less (c_date a) (c_date b)) b"
    and "(case b of (a, _) \<Rightarrow> \<lambda>(b, _). \<not> opt_less (c_date a) (c_date b)) c"
  then show "(case a of (a, _) \<Rightarrow> \<lambda>(b, _). \<not> opt_less (c_date a) (c_date b)) c"
    by (cases a; cases b; cases c) (simp, erule (1) opt_not_less_trans)
qed


lemma date_name_total:
  "(opt_less d2 d1 \<or> (d1 = d2 \<and> \<not> str_less n2 n1))
   \<or> (opt_less d1 d2 \<or> (d2 = d1 \<and> \<not> str_less n1 n2))"
  using opt_less_total [of d1 d2] str_less_asym [of n1 n2] by blast

lemma date_name_trans:
  assumes "opt_less d2 d1 \<or> (d1 = d2 \<and> \<not> str_less n2 n1)"
    and "opt_less d3 d2 \<or> (d2 = d3 \<and> \<not> str_less n3 n2)"
  shows "opt_less d3 d1 \<or> (d1 = d3 \<and> \<not> str_less n3 n1)"
  using assms opt_less_trans [of d3 d2 d1] str_not_less_trans [of n2 n1 n3] by blast

lemma get_all_clients_by_date_and_name:
  "sorted_wrt (\<lambda>(a, _) (b, _).
       opt_less (c_date b) (c_date a)
       \<or> (c_date a = c_date b \<and> \<not> str_less (c_name b) (c_name a)))
     (get_all_clients db)"
  unfolding get_all_clients_def
proof (rule sorted_order_by)
  fix a b :: joined_row
  obtain ca ta where a: "a = (ca, ta)" by (cases a)
  obtain cb tb where b: "b = (cb, tb)" by (cases b)
  from date_name_total [of "c_date cb" "c_date ca" "c_name cb" "c_name ca"]
  show "(case a of (a, _) \<Rightarrow> \<lambda>(b, _). opt_less (c_date b) (c_date a)
            \<or> (c_date a = c_date b \<and> \<not> str_less (c_name b) (c_name a))) b
      \<or> (case b of (a, _) \<Rightarrow> \<lambda>(b, _). opt_less (c_date b) (c_date a)
            \<or> (c_date a = c_date b \<and> \<not> str_less (c_name b) (c_name a))) a"
    unfolding a b by simp
next
  fix a b c :: joined_row
  obtain ca ta where a: "a = (ca, ta)" by (cases a)
  obtain cb tb where b: "b = (cb, tb)" by (cases b)
  obtain cc tc where c: "c = (cc, tc)" by (cases c)
  assume "(case a of (a, _) \<Rightarrow> \<lambda>(b, _). opt_less (c_date b) (c_date a)
            \<or> (c_date a = c_date b \<and> \<not> str_less (c_name b) (c_name a))) b"
    and "(case b of (a, _) \<Rightarrow> \<lambda>(b, _). opt_less (c_date b) (c_date a)
            \<or> (c_date a = c_date b \<and> \<not> str_less (c_name b) (c_name a))) c"
  then have "opt_less (c_date cb) (c_date ca)
              \<or> (c_date ca = c_date cb \<and> \<not> str_less (c_name cb) (c_name ca))"
    and "opt_less (c_date cc) (c_date cb)
              \<or> (c_date cb = c_date cc \<and> \<not> str_less (c_name cc) (c_name cb))"
    unfolding a b c by simp_all
  from date_name_trans [OF this]
  show "(case a of (a, _) \<Rightarrow> \<lambda>(b, _). opt_less (c_date b) (c_date a)
            \<or> (c_date a = c_date b \<and> \<not> str_less (c_name b) (c_name a))) c"
    unfolding a c by simp
qed

subsection \<open>Searching\<close>

text \<open>
  C10. The keyword goes into the pattern as it is, between two percent signs, so an
  underscore in it stands for any character: the search for \<open>a_c\<close> returns the client
  named \<open>abc\<close>, although neither the name, the telephone number, the notes nor the
  type name contains \<open>a_c\<close>.
\<close>

theorem search_clients_underscore:
  "search_clients ''a_c'' abc_db
     = [(person 1 ''abc'' ''/nas/abc'' ''2024-05-01'', Some ''Wedding'', Some theme_color)]
   \<and> \<not> contains ''a_c'' (c_name (person 1 ''abc'' ''/nas/abc'' ''2024-05-01''))
   \<and> \<not> opt_contains ''a_c'' (c_phone (person 1 ''abc'' ''/nas/abc'' ''2024-05-01''))
   \<and> \<not> opt_contains ''a_c'' (c_notes (person 1 ''abc'' ''/nas/abc'' ''2024-05-01''))
   \<and> \<not> contains ''a_c'' ''Wedding''"
  by (simp add: search_clients_def abc_db_def person_def left_join_def wedding_def order_by_def
      opt_like_def opt_contains_def ascii_lower_def)

text \<open>
  C6. \<open>search_clients\<close> orders by date only, where \<open>get_all_clients\<close> orders by date
  and then by name. For three clients of the same day stored as B, A, C the search
  answers B, A, C when tied rows come in table order, and C, A, B when they come in the
  reverse of it; \<open>get_all_clients\<close> answers A, B, C.
\<close>

theorem search_clients_ties_unordered:
  "map (\<lambda>(c, _). (c_date c, c_name c)) (search_clients '''' same_day_db)
     = [(Some ''2024-05-01'', ''B''), (Some ''2024-05-01'', ''A''), (Some ''2024-05-01'', ''C'')]
   \<and> map (\<lambda>(c, _). (c_date c, c_name c))
         (search_clients '''' (same_day_db\<lparr>clients := rev (clients same_day_db)\<rparr>))
     = [(Some ''2024-05-01'', ''C''), (Some ''2024-05-01'', ''A''), (Some ''2024-05-01'', ''B'')]
   \<and> map (\<lambda>(c, _). (c_date c, c_name c)) (get_all_clients same_day_db)
     = [(Some ''2024-05-01'', ''A''), (Some ''2024-05-01'', ''B''), (Some ''2024-05-01'', ''C'')]"
  by (simp add: search_clients_def get_all_clients_def same_day_db_def person_def left_join_def
      wedding_def order_by_def opt_like_def)

subsection \<open>The empty keyword\<close>

lemma mset_place: "mset (place f x ys) = add_mset x (mset ys)"
  by (induction ys) auto

lemma mset_order_by: "mset (order_by f xs) = mset xs"
  by (induction xs) (simp_all add: order_by_def mset_place)

lemma set_order_by: "set (order_by f xs) = set xs"
  using mset_order_by [of f xs] by (metis set_mset_mset)

lemma like_percent: "like [CHR ''%''] s"
  by (induction s) auto

lemma like_two_percent: "like ''%%'' s"
  by (cases s) (simp_all add: like_percent)

lemma search_clients_empty_filter:
  "filter (\<lambda>(c, type_name, type_color).
             like ''%%'' (c_name c) \<or> opt_like ''%%'' (c_phone c)
             \<or> opt_like ''%%'' (c_notes c) \<or> opt_like ''%%'' type_name) rows = rows"
  by (induction rows) (auto simp: like_two_percent)

text \<open>
  C7. For every store, \<open>search_clients\<close> with the empty keyword returns the rows that
  \<open>get_all_clients\<close> returns, each as often: the pattern is \<open>%%\<close>, which the name of
  every client matches, so the two answers differ at most in the order of the rows.
\<close>

theorem search_clients_empty_keyword:
  "set (search_clients '''' db) = set (get_all_clients db)
   \<and> mset (search_clients '''' db) = mset (get_all_clients db)"
  by (simp add: search_clients_def get_all_clients_def set_order_by mset_order_by
      search_clients_empty_filter)

subsection \<open>Row identifiers and types\<close>

lemma fold_max_bounds:
  "seq \<le> fold max ids seq \<and> (\<forall>i \<in> set ids. i \<le> fold max ids (seq :: int))"
proof (induction ids arbitrary: seq)
  case Nil
  show ?case by simp
next
  case (Cons a ids)
  have "max a seq \<le> fold max ids (max a seq)"
    using Cons.IH [of "max a seq"] by simp
  with Cons.IH [of "max a seq"] show ?case
    by auto
qed

lemma next_rowid_above: "i \<in> set ids \<Longrightarrow> i < next_rowid seq ids"
  using fold_max_bounds [of seq ids] by (auto simp: next_rowid_def)

lemma next_rowid_above_seq: "seq < next_rowid seq ids"
  using fold_max_bounds [of seq ids] by (auto simp: next_rowid_def)

lemma get_or_create_type_found:
  "filter (\<lambda>t. t_name t = type_name) (types db) = t # ts \<Longrightarrow>
   get_or_create_type now type_name db = (t_id t, db)"
  by (simp add: get_or_create_type_def)

lemma get_or_create_type_fresh:
  "filter (\<lambda>t. t_name t = type_name) (types db) = [] \<Longrightarrow>
   get_or_create_type now type_name db =
     (next_rowid (types_seq db) (map t_id (types db)),
      db\<lparr>types := types db @
            [\<lparr>t_id = next_rowid (types_seq db) (map t_id (types db)), t_name = type_name,
              t_color = Some theme_color, t_created_at = Some now, t_client_count = 0\<rparr>],
          types_seq := next_rowid (types_seq db) (map t_id (types db))\<rparr>)"
  by (simp add: get_or_create_type_def Let_def)

lemma get_or_create_type_row:
  assumes "get_or_create_type now type_name db = (tid, db1)"
  shows "clients db1 = clients db \<and> clients_seq db1 = clients_seq db
         \<and> (\<exists>t \<in> set (types db1). t_id t = tid \<and> t_name t = type_name)"
proof (cases "filter (\<lambda>t. t_name t = type_name) (types db)")
  case Nil
  from get_or_create_type_fresh [OF Nil, of now] assms show ?thesis
    by auto
next
  case (Cons t ts)
  then have "t \<in> set (filter (\<lambda>t. t_name t = type_name) (types db))"
    by simp
  then have "t \<in> set (types db) \<and> t_name t = type_name"
    by simp
  with get_or_create_type_found [OF Cons, of now] assms show ?thesis
    by auto
qed

lemma filter_name_recount:
  "filter (\<lambda>t. t_name t = type_name)
      (map (\<lambda>t. if t_id t = tid then t\<lparr>t_client_count := n\<rparr> else t) ts)
   = map (\<lambda>t. if t_id t = tid then t\<lparr>t_client_count := n\<rparr> else t)
      (filter (\<lambda>t. t_name t = type_name) ts)"
  by (induction ts) auto

lemma add_client_ok:
  assumes "add_client w now_type now name folder_path type_name date phone email notes db
             = (Inr cid, db')"
  shows "\<exists>tid db1 row. get_or_create_type now_type type_name db = (tid, db1)
      \<and> cid = next_rowid (clients_seq db) (map c_id (clients db))
      \<and> c_id row = cid \<and> c_type_id row = Some tid
      \<and> clients db' = clients db @ [row]
      \<and> types db' = map (\<lambda>t. if t_id t = tid
                                then t\<lparr>t_client_count := count_clients tid db'\<rparr> else t)
                         (types db1)"
proof (cases "get_or_create_type now_type type_name db")
  case (Pair tid db1)
  from get_or_create_type_row [OF Pair] have
    same: "clients db1 = clients db" "clients_seq db1 = clients_seq db"
    by simp_all
  from assms Pair same show ?thesis
    by (auto simp: add_client_def Let_def update_type_count_def count_clients_def
        split: if_splits)
qed

text \<open>
  C2. After every successful \<open>add_client\<close>, whatever the counts stored before, the
  type the client was filed under (found by name, or just created) is in the types
  table, the new client row refers to it, and every type row with its identifier has as
  \<open>client_count\<close> the number of rows of the clients table whose \<open>type_id\<close> is that
  identifier: the count is taken anew from the clients table.
\<close>

theorem add_client_recounts:
  assumes "add_client w now_type now name folder_path type_name date phone email notes db
             = (Inr cid, db')"
  shows "\<exists>tid. (\<exists>t \<in> set (types db'). t_id t = tid \<and> t_name t = type_name)
      \<and> (\<forall>t \<in> set (types db'). t_id t = tid \<longrightarrow>
            t_client_count t = int (length (filter (\<lambda>c. c_type_id c = Some tid) (clients db'))))
      \<and> (\<exists>c \<in> set (clients db'). c_id c = cid \<and> c_type_id c = Some tid)"
proof -
  from add_client_ok [OF assms] obtain tid db1 row where
    got: "get_or_create_type now_type type_name db = (tid, db1)" and
    row: "c_id row = cid" "c_type_id row = Some tid" and
    cl: "clients db' = clients db @ [row]" and
    ty: "types db' = map (\<lambda>t. if t_id t = tid
                                then t\<lparr>t_client_count := count_clients tid db'\<rparr> else t)
                         (types db1)"
    by blast
  from get_or_create_type_row [OF got] obtain t where
    t: "t \<in> set (types db1)" "t_id t = tid" "t_name t = type_name"
    by blast
  let ?u = "t\<lparr>t_client_count := count_clients tid db'\<rparr>"
  from t ty have "?u \<in> set (types db')"
    by force
  moreover from t have "t_id ?u = tid \<and> t_name ?u = type_name"
    by simp
  ultimately have a: "\<exists>t \<in> set (types db'). t_id t = tid \<and> t_name t = type_name"
    by blast
  have b: "\<forall>t \<in> set (types db'). t_id t = tid \<longrightarrow>
             t_client_count t = int (length (filter (\<lambda>c. c_type_id c = Some tid) (clients db')))"
  proof (intro ballI impI)
    fix u
    assume u: "u \<in> set (types db')" and id: "t_id u = tid"
    from u have "u \<in> (\<lambda>t. if t_id t = tid
                           then t\<lparr>t_client_count := count_clients tid db'\<rparr> else t)
                    ` set (types db1)"
      unfolding ty set_map .
    then obtain x where
      ux: "u = (if t_id x = tid then x\<lparr>t_client_count := count_clients tid db'\<rparr> else x)"
      by blast
    have "t_client_count u = count_clients tid db'"
    proof (cases "t_id x = tid")
      case True
      with ux show ?thesis by simp
    next
      case False
      with ux id show ?thesis by simp
    qed
    then show "t_client_count u
                 = int (length (filter (\<lambda>c. c_type_id c = Some tid) (clients db')))"
      by (simp add: count_clients_def)
  qed
  from cl row have c: "\<exists>c \<in> set (clients db'). c_id c = cid \<and> c_type_id c = Some tid"
    by auto
  from a b c show ?thesis
    by blast
qed

theorem add_client_recounts_witness:
  "fst add_ann = Inr 4
   \<and> map (\<lambda>t. (t_id t, t_name t, t_client_count t)) (types drifted_db)
       = [(1, ''Wedding'', 7), (2, ''Portrait'', 1)]
   \<and> map (\<lambda>t. (t_id t, t_name t, t_client_count t)) (types (snd add_ann))
       = [(1, ''Wedding'', 2), (2, ''Portrait'', 1)]
   \<and> map (\<lambda>c. (c_name c, c_type_id c)) (clients (snd add_ann))
       = [(''Tom'', Some 1), (''Zoe'', Some 2), (''Ann'', Some 1)]
   \<and> (\<exists>tid. (\<exists>t \<in> set (types (snd add_ann)). t_id t = tid \<and> t_name t = ''Wedding'')
        \<and> (\<forall>t \<in> set (types (snd add_ann)). t_id t = tid \<longrightarrow>
              t_client_count t
                = int (length (filter (\<lambda>c. c_type_id c = Some tid) (clients (snd add_ann)))))
        \<and> (\<exists>c \<in> set (clients (snd add_ann)). c_id c = 4 \<and> c_type_id c = Some tid))"
proof -
  have res: "fst add_ann = Inr 4"
    by (simp add: add_ann_def add_client_def path_exists_def example_world_def drifted_db_def
        person_def wedding_def portrait_def get_or_create_type_def next_rowid_def)
  have before: "map (\<lambda>t. (t_id t, t_name t, t_client_count t)) (types drifted_db)
                  = [(1, ''Wedding'', 7), (2, ''Portrait'', 1)]"
    by (simp add: drifted_db_def wedding_def portrait_def)
  have after: "map (\<lambda>t. (t_id t, t_name t, t_client_count t)) (types (snd add_ann))
                 = [(1, ''Wedding'', 2), (2, ''Portrait'', 1)]"
    by (simp add: add_ann_def add_client_def path_exists_def example_world_def drifted_db_def
        person_def wedding_def portrait_def get_or_create_type_def next_rowid_def
        update_type_count_def count_clients_def)
  have rows: "map (\<lambda>c. (c_name c, c_type_id c)) (clients (snd add_ann))
                = [(''Tom'', Some 1), (''Zoe'', Some 2), (''Ann'', Some 1)]"
    by (simp add: add_ann_def add_client_def path_exists_def example_world_def drifted_db_def
        person_def wedding_def portrait_def get_or_create_type_def next_rowid_def
        update_type_count_def)
  from res have run: "add_client example_world ''2024-06-01 09:00:00'' ''2024-06-01 09:00:01''
      ''Ann'' ''/nas/shoots/tom-2024'' ''Wedding'' None '''' '''' '''' drifted_db
      = (Inr 4, snd add_ann)"
    by (simp add: add_ann_def prod_eq_iff)
  from add_client_recounts [OF run] res before after rows show ?thesis
    by simp
qed

text \<open>
  C5. When no type row has the name, two successful calls of \<open>add_client\<close> with that
  name, one after the other, leave exactly one type row of that name, the types table one
  row longer than it was, and the two new client rows, with different identifiers, both
  referring to that type row's identifier.
\<close>

theorem add_client_same_type_twice:
  assumes fresh: "type_name \<notin> t_name ` set (types db)"
    and first: "add_client w1 now_type1 now1 name1 folder1 type_name date1 phone1 email1 notes1 db
                  = (Inr id1, db1)"
    and second: "add_client w2 now_type2 now2 name2 folder2 type_name date2 phone2 email2 notes2 db1
                  = (Inr id2, db2)"
  shows "\<exists>t. filter (\<lambda>t. t_name t = type_name) (types db2) = [t]
      \<and> length (types db2) = length (types db) + 1
      \<and> id1 \<noteq> id2
      \<and> (\<exists>c \<in> set (clients db2). c_id c = id1)
      \<and> (\<exists>c \<in> set (clients db2). c_id c = id2)
      \<and> (\<forall>c \<in> set (clients db2). c_id c = id1 \<or> c_id c = id2 \<longrightarrow> c_type_id c = Some (t_id t))"
proof -
  from add_client_ok [OF first] obtain tid1 dba row1 where
    got1: "get_or_create_type now_type1 type_name db = (tid1, dba)" and
    id1: "id1 = next_rowid (clients_seq db) (map c_id (clients db))" and
    row1: "c_id row1 = id1" "c_type_id row1 = Some tid1" and
    cl1: "clients db1 = clients db @ [row1]" and
    ty1: "types db1 = map (\<lambda>t. if t_id t = tid1
                                 then t\<lparr>t_client_count := count_clients tid1 db1\<rparr> else t)
                          (types dba)"
    by blast
  from add_client_ok [OF second] obtain tid2 dbb row2 where
    got2: "get_or_create_type now_type2 type_name db1 = (tid2, dbb)" and
    id2: "id2 = next_rowid (clients_seq db1) (map c_id (clients db1))" and
    row2: "c_id row2 = id2" "c_type_id row2 = Some tid2" and
    cl2: "clients db2 = clients db1 @ [row2]" and
    ty2: "types db2 = map (\<lambda>t. if t_id t = tid2
                                 then t\<lparr>t_client_count := count_clients tid2 db2\<rparr> else t)
                          (types dbb)"
    by blast
  let ?new = "\<lparr>t_id = next_rowid (types_seq db) (map t_id (types db)), t_name = type_name,
               t_color = Some theme_color, t_created_at = Some now_type1, t_client_count = 0\<rparr>"
  let ?f1 = "\<lambda>t. if t_id t = tid1 then t\<lparr>t_client_count := count_clients tid1 db1\<rparr> else t"
  let ?f2 = "\<lambda>t. if t_id t = tid2 then t\<lparr>t_client_count := count_clients tid2 db2\<rparr> else t"
  from fresh have none: "filter (\<lambda>t. t_name t = type_name) (types db) = []"
    by (auto simp: filter_empty_conv)
  from get_or_create_type_fresh [OF none, of now_type1] got1 have
    tid1: "tid1 = t_id ?new" and dba: "types dba = types db @ [?new]"
    by auto
  from ty1 dba none have one1: "filter (\<lambda>t. t_name t = type_name) (types db1) = [?f1 ?new]"
    by (simp add: filter_name_recount)
  from get_or_create_type_found [OF one1, of now_type2] got2 have
    tid2: "tid2 = t_id (?f1 ?new)" and dbb: "dbb = db1"
    by auto
  from tid1 tid2 have same: "tid2 = tid1"
    by simp
  from ty2 dbb one1 have one2: "filter (\<lambda>t. t_name t = type_name) (types db2) = [?f2 (?f1 ?new)]"
    by (simp add: filter_name_recount)
  have tid: "t_id (?f2 (?f1 ?new)) = tid1"
    using tid1 by simp
  from ty2 dbb ty1 dba have len: "length (types db2) = length (types db) + 1"
    by simp
  have above: "\<forall>c \<in> set (clients db). c_id c < id1"
    using id1 by (auto intro: next_rowid_above)
  from id2 cl1 row1 have less: "id1 < id2"
    by (auto intro: next_rowid_above)
  from cl1 cl2 have rows: "clients db2 = clients db @ [row1, row2]"
    by simp
  from rows row1 have e1: "\<exists>c \<in> set (clients db2). c_id c = id1"
    by auto
  from rows row2 have e2: "\<exists>c \<in> set (clients db2). c_id c = id2"
    by auto
  have all: "\<forall>c \<in> set (clients db2). c_id c = id1 \<or> c_id c = id2 \<longrightarrow> c_type_id c = Some tid1"
  proof
    fix c
    assume "c \<in> set (clients db2)"
    with rows have "c \<in> set (clients db) \<or> c = row1 \<or> c = row2"
      by auto
    then show "c_id c = id1 \<or> c_id c = id2 \<longrightarrow> c_type_id c = Some tid1"
      using above less row1 row2 same by force
  qed
  from one2 tid len less e1 e2 all show ?thesis
    by auto
qed

theorem add_client_same_type_twice_witness:
  "''Wedding'' \<notin> t_name ` set (types empty_db)
   \<and> fst add_mary = Inr 1 \<and> fst add_tom = Inr 2
   \<and> map t_name (types (snd add_tom)) = [''Wedding'']
   \<and> map c_type_id (clients (snd add_tom)) = [Some 1, Some 1]
   \<and> (\<exists>t. filter (\<lambda>t. t_name t = ''Wedding'') (types (snd add_tom)) = [t]
        \<and> length (types (snd add_tom)) = length (types empty_db) + 1
        \<and> (\<exists>c \<in> set (clients (snd add_tom)). c_id c = 1)
        \<and> (\<exists>c \<in> set (clients (snd add_tom)). c_id c = 2)
        \<and> (\<forall>c \<in> set (clients (snd add_tom)).
              c_id c = 1 \<or> c_id c = 2 \<longrightarrow> c_type_id c = Some (t_id t)))"
proof -
  have fresh: "''Wedding'' \<notin> t_name ` set (types empty_db)"
    by (simp add: empty_db_def)
  have r1: "fst add_mary = Inr 1"
    by (simp add: add_mary_def add_client_def path_exists_def example_world_def empty_db_def
        get_or_create_type_def next_rowid_def)
  have r2: "fst add_tom = Inr 2"
    by (simp add: add_tom_def add_mary_def add_client_def path_exists_def example_world_def
        empty_db_def get_or_create_type_def next_rowid_def update_type_count_def)
  have names: "map t_name (types (snd add_tom)) = [''Wedding'']"
    by (simp add: add_tom_def add_mary_def add_client_def path_exists_def example_world_def
        empty_db_def get_or_create_type_def next_rowid_def update_type_count_def)
  have refs: "map c_type_id (clients (snd add_tom)) = [Some 1, Some 1]"
    by (simp add: add_tom_def add_mary_def add_client_def path_exists_def example_world_def
        empty_db_def get_or_create_type_def next_rowid_def update_type_count_def)
  from r1 have first: "add_client example_world ''2024-03-20 10:00:00'' ''2024-03-20 10:00:01''
      ''Mary'' ''/nas/shoots/mary-2024'' ''Wedding'' (Some ''2024-03-20'') '''' '''' '''' empty_db
      = (Inr 1, snd add_mary)"
    by (simp add: add_mary_def prod_eq_iff)
  from r2 have second: "add_client example_world ''2024-04-01 10:00:00'' ''2024-04-01 10:00:01''
      ''Tom'' ''/nas/shoots/tom-2024'' ''Wedding'' (Some ''2024-04-01'') '''' '''' ''''
      (snd add_mary) = (Inr 2, snd add_tom)"
    by (simp add: add_tom_def prod_eq_iff)
  from add_client_same_type_twice [OF fresh first second] fresh r1 r2 names refs
  show ?thesis
    by simp
qed

end
